theory Spec2Isabelle
  imports Complex_Main
begin

section \<open>Exceptions\<close>

text \<open>
  The exceptions that can travel through the session manager. The first four are the
  classes of \<^verbatim>\<open>exceptions.py\<close>; \<open>NotFound\<close> and \<open>APIError\<close> are the two
  classes of the container runtime's client library that \<^verbatim>\<open>_connect\<close> names in its
  handlers; \<open>ValidationError\<close> is raised by the model library when a field constraint
  fails; \<open>FileNotFoundError\<close> is the builtin raised by \<^verbatim>\<open>open\<close>;
  \<open>OtherException\<close> stands for every other subclass of \<^verbatim>\<open>Exception\<close>.
  \<open>KeyboardInterrupt\<close> and \<open>SystemExit\<close> derive from \<^verbatim>\<open>BaseException\<close> only:
  a handler \<^verbatim>\<open>except Exception\<close> does not catch them. Each value carries the text
  that \<^verbatim>\<open>str(e)\<close> returns.
\<close>

datatype exn =
    SandboxError string
  | ContainerNotFoundError string
  | ExecutionTimeoutError string
  | ContainerConnectionError string
  | NotFound string
  | APIError string
  | ValidationError string
  | FileNotFoundError string
  | OtherException string
  | KeyboardInterrupt string
  | SystemExit string

fun str_exn :: "exn \<Rightarrow> string" where
  "str_exn (SandboxError m) = m"
| "str_exn (ContainerNotFoundError m) = m"
| "str_exn (ExecutionTimeoutError m) = m"
| "str_exn (ContainerConnectionError m) = m"
| "str_exn (NotFound m) = m"
| "str_exn (APIError m) = m"
| "str_exn (ValidationError m) = m"
| "str_exn (FileNotFoundError m) = m"
| "str_exn (OtherException m) = m"
| "str_exn (KeyboardInterrupt m) = m"
| "str_exn (SystemExit m) = m"

text \<open>\<^verbatim>\<open>isinstance(e, Exception)\<close>: what \<^verbatim>\<open>except Exception\<close> catches.\<close>

fun is_Exception :: "exn \<Rightarrow> bool" where
  "is_Exception (KeyboardInterrupt m) = False"
| "is_Exception (SystemExit m) = False"
| "is_Exception e = True"

section \<open>Formatting helpers\<close>

text \<open>Decimal rendering of an integer, as an f-string does for \<^verbatim>\<open>{self.exit_code}\<close>.\<close>

fun str_of_nat :: "nat \<Rightarrow> string" where
  "str_of_nat n =
     (if n < 10 then [''0123456789'' ! n]
      else str_of_nat (n div 10) @ [''0123456789'' ! (n mod 10)])"

definition str_of_int :: "int \<Rightarrow> string" where
  "str_of_int i = (if i < 0 then ''-'' @ str_of_nat (nat (- i)) else str_of_nat (nat i))"

text \<open>\<^verbatim>\<open>" ".join(cmd)\<close>\<close>

fun join_space :: "string list \<Rightarrow> string" where
  "join_space [] = []"
| "join_space [x] = x"
| "join_space (x # y # ys) = x @ '' '' @ join_space (y # ys)"

text \<open>\<^verbatim>\<open>needle in haystack\<close> on strings.\<close>

fun starts_with :: "string \<Rightarrow> string \<Rightarrow> bool" where
  "starts_with [] ys = True"
| "starts_with (x # xs) [] = False"
| "starts_with (x # xs) (y # ys) = (x = y \<and> starts_with xs ys)"

fun str_contains :: "string \<Rightarrow> string \<Rightarrow> bool" where
  "str_contains needle [] = (needle = [])"
| "str_contains needle (y # ys) = (starts_with needle (y # ys) \<or> str_contains needle ys)"

text \<open>
  Python's \<^verbatim>\<open>x or default\<close> on an optional string and on an optional integer:
  \<^verbatim>\<open>None\<close>, the empty string and zero are falsy and give the default.
\<close>

definition or_str :: "string option \<Rightarrow> string \<Rightarrow> string" where
  "or_str x d = (case x of None \<Rightarrow> d | Some v \<Rightarrow> (if v = [] then d else v))"

definition or_int :: "int option \<Rightarrow> int \<Rightarrow> int" where
  "or_int x d = (case x of None \<Rightarrow> d | Some v \<Rightarrow> (if v = 0 then d else v))"

section \<open>Configuration (config.py)\<close>

record SandboxConfig =
  container :: string
  workdir :: string
  timeout :: int
  shell :: string

text \<open>The inner \<^verbatim>\<open>class Config\<close>: the two switches the source sets.\<close>

record model_config =
  frozen :: bool
  validate_assignment :: bool

definition SandboxConfig_Config :: model_config where
  "SandboxConfig_Config = \<lparr>frozen = True, validate_assignment = True\<rparr>"

text \<open>The constraint of the \<^verbatim>\<open>timeout\<close> field: \<^verbatim>\<open>ge=1, le=3600\<close>.\<close>

definition validate_timeout :: "int \<Rightarrow> exn + int" where
  "validate_timeout t =
     (if t < 1 then Inl (ValidationError ''timeout: Input should be greater than or equal to 1'')
      else if t > 3600 then Inl (ValidationError ''timeout: Input should be less than or equal to 3600'')
      else Inr t)"

text \<open>
  Construction. \<^verbatim>\<open>container\<close> is required; an omitted optional argument takes the
  declared default, which is not validated; a given \<^verbatim>\<open>timeout\<close> is checked against
  its bounds.
\<close>

definition SandboxConfig_init ::
  "string \<Rightarrow> string option \<Rightarrow> int option \<Rightarrow> string option \<Rightarrow> exn + SandboxConfig" where
  "SandboxConfig_init c wd t sh =
     (case (case t of None \<Rightarrow> Inr 30 | Some n \<Rightarrow> validate_timeout n) of
        Inl e \<Rightarrow> Inl e
      | Inr t' \<Rightarrow>
          Inr \<lparr>container = c,
               workdir = (case wd of None \<Rightarrow> ''/workspace'' | Some v \<Rightarrow> v),
               timeout = t',
               shell = (case sh of None \<Rightarrow> ''/bin/bash'' | Some v \<Rightarrow> v)\<rparr>)"

text \<open>
  Attribute assignment on a constructed configuration. A frozen model refuses every
  assignment; a model that is not frozen validates the new value when
  \<^verbatim>\<open>validate_assignment\<close> is set and stores it. The result is the exception raised,
  if any, and the configuration afterwards.
\<close>

datatype assignment =
    Set_container string
  | Set_workdir string
  | Set_timeout int
  | Set_shell string

fun store_field :: "SandboxConfig \<Rightarrow> assignment \<Rightarrow> SandboxConfig" where
  "store_field cfg (Set_container v) = cfg\<lparr>container := v\<rparr>"
| "store_field cfg (Set_workdir v) = cfg\<lparr>workdir := v\<rparr>"
| "store_field cfg (Set_timeout v) = cfg\<lparr>timeout := v\<rparr>"
| "store_field cfg (Set_shell v) = cfg\<lparr>shell := v\<rparr>"

fun validate_field :: "assignment \<Rightarrow> exn option" where
  "validate_field (Set_timeout v) = (case validate_timeout v of Inl e \<Rightarrow> Some e | Inr _ \<Rightarrow> None)"
| "validate_field _ = None"

definition model_setattr ::
  "model_config \<Rightarrow> SandboxConfig \<Rightarrow> assignment \<Rightarrow> exn option \<times> SandboxConfig" where
  "model_setattr mc cfg a =
     (if frozen mc then (Some (ValidationError ''Instance is frozen''), cfg)
      else if validate_assignment mc then
        (case validate_field a of Some e \<Rightarrow> (Some e, cfg) | None \<Rightarrow> (None, store_field cfg a))
      else (None, store_field cfg a))"

definition SandboxConfig_setattr ::
  "SandboxConfig \<Rightarrow> assignment \<Rightarrow> exn option \<times> SandboxConfig" where
  "SandboxConfig_setattr = model_setattr SandboxConfig_Config"

section \<open>Result model (models.py)\<close>

datatype ResultType = OUTPUT | ERROR

record ResultValue =
  rtype :: ResultType
  content :: string

record ExecutionResult =
  stdout :: string
  stderr :: string
  exit_code :: int
  execution_time :: real
  timeout_occurred :: bool
  container_id :: string
  command :: string

text \<open>Construction checks the one constrained field: \<^verbatim>\<open>execution_time\<close> has \<^verbatim>\<open>ge=0\<close>.\<close>

definition ExecutionResult_init ::
  "string \<Rightarrow> string \<Rightarrow> int \<Rightarrow> real \<Rightarrow> bool \<Rightarrow> string \<Rightarrow> string \<Rightarrow> exn + ExecutionResult" where
  "ExecutionResult_init out err code t tmo cid cmd =
     (if t < 0 then Inl (ValidationError ''execution_time: Input should be greater than or equal to 0'')
      else Inr \<lparr>stdout = out, stderr = err, exit_code = code, execution_time = t,
                timeout_occurred = tmo, container_id = cid, command = cmd\<rparr>)"

definition success :: "ExecutionResult \<Rightarrow> bool" where
  "success r = (exit_code r = 0 \<and> \<not> timeout_occurred r)"

definition return_value :: "ExecutionResult \<Rightarrow> ResultValue" where
  "return_value r =
     (if success r \<and> stdout r \<noteq> [] then \<lparr>rtype = OUTPUT, content = stdout r\<rparr>
      else if stderr r \<noteq> [] then \<lparr>rtype = ERROR, content = stderr r\<rparr>
      else if \<not> success r then
        \<lparr>rtype = ERROR, content = ''Command failed with exit code '' @ str_of_int (exit_code r)\<rparr>
      else \<lparr>rtype = OUTPUT, content = []\<rparr>)"

section \<open>The container runtime, the clock and the file system\<close>

text \<open>
  The session talks to three things outside the program: the container runtime
  (\<^verbatim>\<open>docker.from_env\<close>, \<^verbatim>\<open>client.containers.get\<close>, \<^verbatim>\<open>container.exec_run\<close>),
  the wall clock (\<^verbatim>\<open>time.time\<close>) and the local file system (\<^verbatim>\<open>open\<close>). Each is an
  oracle of the world: the answer to a runtime call may depend on how many runtime calls
  came before it, the answer of the clock on how many times it was read. The world also
  keeps the log of the runtime calls issued so far.
\<close>

type_synonym bytes = string

datatype client = DockerClient nat

datatype container_handle = Container (handle_id: string)

text \<open>
  What \<^verbatim>\<open>exec_run\<close> returns with \<^verbatim>\<open>demux=True\<close>: the exit code and the pair of
  captured streams, each of which may be \<^verbatim>\<open>None\<close>.
\<close>

datatype exec_result = ExecResult (res_exit_code: int) (res_stdout: "bytes option") (res_stderr: "bytes option")

datatype call =
    FromEnv
  | ContainersGet client string
  | ExecRun container_handle "string list" string

record world =
  from_env :: "nat \<Rightarrow> exn + client"
  containers_get :: "nat \<Rightarrow> client \<Rightarrow> string \<Rightarrow> exn + container_handle"
  exec_run :: "nat \<Rightarrow> container_handle \<Rightarrow> string list \<Rightarrow> string \<Rightarrow> exn + exec_result"
  clock :: "nat \<Rightarrow> real"
  open_read :: "string \<Rightarrow> exn + string"
  decode :: "bytes \<Rightarrow> exn + string"
  calls :: "call list"
  ticks :: nat

definition time_time :: "world \<Rightarrow> real \<times> world" where
  "time_time w = (clock w (ticks w), w\<lparr>ticks := Suc (ticks w)\<rparr>)"

definition log_call :: "call \<Rightarrow> world \<Rightarrow> world" where
  "log_call c w = w\<lparr>calls := calls w @ [c]\<rparr>"

text \<open>\<^verbatim>\<open>b.decode() if b else ""\<close>: \<^verbatim>\<open>None\<close> and the empty byte string are falsy.\<close>

definition decode_or_empty :: "world \<Rightarrow> bytes option \<Rightarrow> exn + string" where
  "decode_or_empty w b =
     (case b of None \<Rightarrow> Inr [] | Some bs \<Rightarrow> (if bs = [] then Inr [] else decode w bs))"

section \<open>Execution session (sandbox.py)\<close>

record Sandbox =
  config :: SandboxConfig
  p_client :: "client option"
  p_container :: "container_handle option"

text \<open>
  Every operation takes the session and the world and returns its outcome (\<open>Inl\<close> an
  exception that leaves the operation, \<open>Inr\<close> the value returned) with the session and
  the world as the operation left them.
\<close>

type_synonym 'a outcome = "(exn + 'a) \<times> Sandbox \<times> world"

definition connect :: "Sandbox \<Rightarrow> world \<Rightarrow> unit outcome" where
  "connect s w =
     (case (case p_client s of
              Some c \<Rightarrow> (Inr c, s, w)
            | None \<Rightarrow>
                (case from_env w (length (calls w)) of
                   Inr c \<Rightarrow> (Inr c, s\<lparr>p_client := Some c\<rparr>, log_call FromEnv w)
                 | Inl e \<Rightarrow>
                     (if is_Exception e
                      then (Inl (ContainerConnectionError (''Failed to connect to Docker: '' @ str_exn e)),
                            s, log_call FromEnv w)
                      else (Inl e, s, log_call FromEnv w)))) of
        (Inl e, s1, w1) \<Rightarrow> (Inl e, s1, w1)
      | (Inr c, s1, w1) \<Rightarrow>
          (case p_container s1 of
             Some h \<Rightarrow> (Inr (), s1, w1)
           | None \<Rightarrow>
               (let name = container (config s1);
                    w2 = log_call (ContainersGet c name) w1
                in case containers_get w1 (length (calls w1)) c name of
                     Inr h \<Rightarrow> (Inr (), s1\<lparr>p_container := Some h\<rparr>, w2)
                   | Inl (NotFound m) \<Rightarrow>
                       (Inl (ContainerNotFoundError (''Container '' @ [CHR 0x27] @ name @ [CHR 0x27] @ '' not found'')),
                        s1, w2)
                   | Inl (APIError m) \<Rightarrow>
                       (Inl (ContainerConnectionError (''Failed to access container: '' @ m)), s1, w2)
                   | Inl e \<Rightarrow> (Inl e, s1, w2))))"

text \<open>
  The body shared, line for line, by \<^verbatim>\<open>execute\<close> and \<^verbatim>\<open>execute_shell\<close> once the
  command is built: read the clock, dispatch, read the clock again, compare with the
  timeout, decode the two streams. The handler of \<^verbatim>\<open>except Exception\<close> reads the clock
  once more and builds the result from the value \<^verbatim>\<open>timeout_occurred\<close> has at that
  moment; an exception it does not catch leaves the operation. The local variables \<^verbatim>\<open>execution_time\<close> and \<^verbatim>\<open>timeout_occurred\<close> are
  \<open>elapsed\<close> and \<open>timed_out\<close> here, the field names being taken. After a
  successful \<^verbatim>\<open>_connect\<close> the container handle is set; were it \<^verbatim>\<open>None\<close>, the
  attribute access would raise inside the \<^verbatim>\<open>try\<close> and again in the handler, after
  two clock readings.
\<close>

definition dispatch_failed ::
  "exn \<Rightarrow> real \<Rightarrow> bool \<Rightarrow> container_handle \<Rightarrow> string list \<Rightarrow> Sandbox \<Rightarrow> world \<Rightarrow> ExecutionResult outcome" where
  "dispatch_failed e start_time timed_out h cmd s w =
     (if is_Exception e then
        (let (now, w') = time_time w;
             elapsed = now - start_time
         in (ExecutionResult_init [] (str_exn e) (- 1) elapsed timed_out
               (handle_id h) (join_space cmd), s, w'))
      else (Inl e, s, w))"

definition dispatch ::
  "string list \<Rightarrow> string \<Rightarrow> int \<Rightarrow> Sandbox \<Rightarrow> world \<Rightarrow> ExecutionResult outcome" where
  "dispatch cmd execution_workdir execution_timeout s w =
     (let (start_time, w1) = time_time w
      in case p_container s of
           None \<Rightarrow>
             (Inl (OtherException ''NoneType object has no attribute id''), s, snd (time_time w1))
         | Some h \<Rightarrow>
             (case exec_run w1 (length (calls w1)) h cmd execution_workdir of
                Inl e \<Rightarrow>
                  dispatch_failed e start_time False h cmd s (log_call (ExecRun h cmd execution_workdir) w1)
              | Inr res \<Rightarrow>
                  (let (now, w2) = time_time (log_call (ExecRun h cmd execution_workdir) w1);
                       elapsed = now - start_time;
                       timed_out = (elapsed > of_int execution_timeout)
                   in case decode_or_empty w2 (res_stdout res) of
                        Inl e \<Rightarrow> dispatch_failed e start_time timed_out h cmd s w2
                      | Inr out \<Rightarrow>
                          (case decode_or_empty w2 (res_stderr res) of
                             Inl e \<Rightarrow> dispatch_failed e start_time timed_out h cmd s w2
                           | Inr err \<Rightarrow>
                               (ExecutionResult_init out err (res_exit_code res) elapsed
                                  timed_out (handle_id h) (join_space cmd), s, w2)))))"

definition execute ::
  "string \<Rightarrow> string option \<Rightarrow> string option \<Rightarrow> int option \<Rightarrow> Sandbox \<Rightarrow> world \<Rightarrow> ExecutionResult outcome" where
  "execute code stdin wd tmo s w =
     (case connect s w of
        (Inl e, s1, w1) \<Rightarrow> (Inl e, s1, w1)
      | (Inr u, s1, w1) \<Rightarrow>
          (let execution_workdir = or_str wd (workdir (config s1));
               execution_timeout = or_int tmo (timeout (config s1));
               cmd = [''python3'', ''-c'', code]
           in dispatch cmd execution_workdir execution_timeout s1 w1))"

definition execute_shell ::
  "string \<Rightarrow> string option \<Rightarrow> int option \<Rightarrow> string option \<Rightarrow> Sandbox \<Rightarrow> world \<Rightarrow> ExecutionResult outcome" where
  "execute_shell cmdline wd tmo sh s w =
     (case connect s w of
        (Inl e, s1, w1) \<Rightarrow> (Inl e, s1, w1)
      | (Inr u, s1, w1) \<Rightarrow>
          (let execution_workdir = or_str wd (workdir (config s1));
               execution_timeout = or_int tmo (timeout (config s1));
               execution_shell = or_str sh (shell (config s1));
               cmd = [execution_shell, ''-c'', cmdline]
           in dispatch cmd execution_workdir execution_timeout s1 w1))"

definition execute_file ::
  "string \<Rightarrow> string list option \<Rightarrow> string option \<Rightarrow> int option \<Rightarrow> Sandbox \<Rightarrow> world \<Rightarrow> ExecutionResult outcome" where
  "execute_file filepath args wd tmo s w =
     (case open_read w filepath of
        Inl (FileNotFoundError m) \<Rightarrow>
          (ExecutionResult_init [] (''File not found: '' @ filepath) 1 0 False
             (case p_container s of Some h \<Rightarrow> handle_id h | None \<Rightarrow> [])
             (''python3 '' @ filepath), s, w)
      | Inl e \<Rightarrow> (Inl e, s, w)
      | Inr code \<Rightarrow> execute code None wd tmo s w)"

text \<open>\<^verbatim>\<open>try: ... except Exception: return default\<close>\<close>

definition except_return :: "'a outcome \<Rightarrow> 'a \<Rightarrow> 'a outcome" where
  "except_return r d =
     (case r of
        (Inl e, s, w) \<Rightarrow> (if is_Exception e then (Inr d, s, w) else (Inl e, s, w))
      | (Inr v, s, w) \<Rightarrow> (Inr v, s, w))"

definition health_probe :: string where
  "health_probe = ''print('' @ [CHR 0x27] @ ''health_check'' @ [CHR 0x27] @ '')''"

definition is_healthy_body :: "Sandbox \<Rightarrow> world \<Rightarrow> bool outcome" where
  "is_healthy_body s w =
     (case connect s w of
        (Inl e, s1, w1) \<Rightarrow> (Inl e, s1, w1)
      | (Inr u, s1, w1) \<Rightarrow>
          (case execute health_probe None None (Some 5) s1 w1 of
             (Inl e, s2, w2) \<Rightarrow> (Inl e, s2, w2)
           | (Inr result, s2, w2) \<Rightarrow>
               (Inr (success result \<and> str_contains ''health_check'' (stdout result)), s2, w2)))"

definition is_healthy :: "Sandbox \<Rightarrow> world \<Rightarrow> bool outcome" where
  "is_healthy s w = except_return (is_healthy_body s w) False"

section \<open>Sample sessions and worlds\<close>

text \<open>
  The configuration of the specification's scenario and four worlds: one where every
  call succeeds and the command prints the probe marker, one where the dispatch raises
  after a hundred seconds, one where the named container does not exist, and one where
  the runtime cannot be reached.
\<close>

definition config0 :: SandboxConfig where
  "config0 = \<lparr>container = ''sandbox'', workdir = ''/projects'', timeout = 10, shell = ''/bin/bash''\<rparr>"

definition sandbox0 :: Sandbox where
  "sandbox0 = \<lparr>config = config0, p_client = None, p_container = None\<rparr>"

definition world_ok :: world where
  "world_ok =
     \<lparr>from_env = (\<lambda>n. Inr (DockerClient 0)),
      containers_get = (\<lambda>n c name. Inr (Container ''c0ffee'')),
      exec_run = (\<lambda>n h cmd wd. Inr (ExecResult 0 (Some ''health_check'') None)),
      clock = (\<lambda>n. real n),
      open_read = (\<lambda>path. Inl (FileNotFoundError path)),
      decode = (\<lambda>bs. Inr bs),
      calls = [],
      ticks = 0\<rparr>"

definition world_raise :: world where
  "world_raise =
     world_ok\<lparr>exec_run := (\<lambda>n h cmd wd. Inl (OtherException ''read timed out'')),
              clock := (\<lambda>n. 100 * real n)\<rparr>"

definition world_missing :: world where
  "world_missing = world_ok\<lparr>containers_get := (\<lambda>n c name. Inl (NotFound ''No such container''))\<rparr>"

definition world_down :: world where
  "world_down = world_ok\<lparr>from_env := (\<lambda>n. Inl (OtherException ''Connection refused''))\<rparr>"

definition world_api_error :: world where
  "world_api_error = world_ok\<lparr>containers_get := (\<lambda>n c name. Inl (APIError ''500 Server Error''))\<rparr>"

text \<open>
  A world where the dispatch raises while the clock has been set back a hundred seconds,
  and one where the dispatch is interrupted from the keyboard.
\<close>

definition world_back :: world where
  "world_back =
     world_ok\<lparr>exec_run := (\<lambda>n h cmd wd. Inl (OtherException ''read timed out'')),
              clock := (\<lambda>n. if n = 0 then 100 else 0)\<rparr>"

definition world_interrupt :: world where
  "world_interrupt = world_ok\<lparr>exec_run := (\<lambda>n h cmd wd. Inl (KeyboardInterrupt []))\<rparr>"

text \<open>A world where every call succeeds and a minute passes between two clock readings.\<close>

definition world_slow :: world where
  "world_slow = world_ok\<lparr>clock := (\<lambda>n. 60 * real n)\<rparr>"

text \<open>The session of the scenario once connected, and the result of a dispatch that raised.\<close>

definition sandbox1 :: Sandbox where
  "sandbox1 = sandbox0\<lparr>p_client := Some (DockerClient 0), p_container := Some (Container ''c0ffee'')\<rparr>"

definition raised_result :: ExecutionResult where
  "raised_result =
     \<lparr>stdout = [], stderr = ''read timed out'', exit_code = - 1, execution_time = 100,
      timeout_occurred = False, container_id = ''c0ffee'', command = ''python3 -c 1''\<rparr>"

section \<open>Basic facts\<close>

lemmas session_defs =
  connect_def dispatch_def dispatch_failed_def execute_def execute_shell_def
  time_time_def log_call_def decode_or_empty_def ExecutionResult_init_def
  or_str_def or_int_def Let_def

lemmas sample_defs =
  sandbox0_def sandbox1_def config0_def world_ok_def world_raise_def world_missing_def
  world_down_def world_api_error_def world_slow_def world_back_def world_interrupt_def

lemma str_of_int_minus_one: "str_of_int (- 1) = ''-1''"
  by (simp add: str_of_int_def)

lemma str_of_int_127: "str_of_int 127 = ''127''"
  by (simp add: str_of_int_def)

lemma or_str_empty: "or_str (Some []) d = or_str None d"
  by (simp add: or_str_def)

lemma or_int_zero: "or_int (Some 0) d = or_int None d"
  by (simp add: or_int_def)

lemma connect_config: "connect s w = (r, s1, w1) \<Longrightarrow> config s1 = config s"
  by (auto simp add: connect_def Let_def split: option.splits sum.splits exn.splits if_splits)

lemma connect_Inr_container: "connect s w = (Inr u, s1, w1) \<Longrightarrow> \<exists>h. p_container s1 = Some h"
  by (auto simp add: connect_def Let_def split: option.splits sum.splits exn.splits if_splits)

lemma connect_sandbox1: "connect sandbox1 w = (Inr (), sandbox1, w)"
  by (simp add: connect_def sample_defs)

text \<open>
  Connecting leaves the oracles of the world alone, and a world whose calls raise only
  exceptions of the \<^verbatim>\<open>Exception\<close> hierarchy makes the operations raise only such.
\<close>

lemma connect_oracles:
  "connect s w = (r, s1, w1) \<Longrightarrow>
     from_env w1 = from_env w \<and> containers_get w1 = containers_get w \<and>
     exec_run w1 = exec_run w \<and> decode w1 = decode w"
  by (auto simp add: connect_def log_call_def Let_def split: option.splits sum.splits exn.splits if_splits)

lemma connect_raises_Exception:
  assumes "\<And>n e. from_env w n = Inl e \<Longrightarrow> is_Exception e"
    and "\<And>n c name e. containers_get w n c name = Inl e \<Longrightarrow> is_Exception e"
    and "connect s w = (Inl e, s1, w1)"
  shows "is_Exception e"
  using assms(3) assms(1) [of "length (calls w)"]
    assms(2) [of "length (calls w)" _ "container (config s)"]
    assms(2) [of "Suc (length (calls w))" _ "container (config s)"]
  by (auto simp add: connect_def log_call_def Let_def split: option.splits sum.splits exn.splits if_splits)

lemma dispatch_raises_Exception:
  assumes "\<And>n h c d e. exec_run w n h c d = Inl e \<Longrightarrow> is_Exception e"
    and "\<And>bs e. decode w bs = Inl e \<Longrightarrow> is_Exception e"
    and "dispatch cmd wd tmo s w = (Inl e, s1, w1)"
  shows "is_Exception e"
  using assms(3) assms(1) [of "length (calls w)" _ cmd wd] assms(2)
  by (auto simp add: dispatch_def dispatch_failed_def time_time_def log_call_def
      decode_or_empty_def ExecutionResult_init_def Let_def
      split: option.splits sum.splits if_splits)

lemma execute_raises_Exception:
  assumes fe: "\<And>n e. from_env w n = Inl e \<Longrightarrow> is_Exception e"
    and cg: "\<And>n c name e. containers_get w n c name = Inl e \<Longrightarrow> is_Exception e"
    and er: "\<And>n h c d e. exec_run w n h c d = Inl e \<Longrightarrow> is_Exception e"
    and de: "\<And>bs e. decode w bs = Inl e \<Longrightarrow> is_Exception e"
    and ex: "execute code stdin wd tmo s w = (Inl e, s2, w2)"
  shows "is_Exception e"
proof (cases "connect s w" rule: prod_cases3)
  case (fields r s1 w1)
  show ?thesis
  proof (cases r)
    case (Inl e')
    with fields ex have "e' = e" by (simp add: execute_def)
    with fields Inl have "connect s w = (Inl e, s1, w1)" by simp
    then show ?thesis
      using fe cg connect_raises_Exception [of w s e s1 w1] by blast
  next
    case (Inr u)
    from connect_oracles [OF fields]
    have o: "exec_run w1 = exec_run w" "decode w1 = decode w" by simp_all
    from fields Inr ex
    have "dispatch [''python3'', ''-c'', code] (or_str wd (workdir (config s1)))
            (or_int tmo (timeout (config s1))) s1 w1 = (Inl e, s2, w2)"
      by (simp add: execute_def Let_def)
    then show ?thesis
      by (rule dispatch_raises_Exception [rotated 2]) (auto simp add: o dest: er de)
  qed
qed

lemma decode_or_empty_logged:
  "decode_or_empty (w\<lparr>calls := x, ticks := y\<rparr>) b = decode_or_empty w b"
  by (simp add: decode_or_empty_def split: option.splits)

lemma or_str_None: "or_str None d = d"
  by (simp add: or_str_def)

lemma or_int_None: "or_int None d = d"
  by (simp add: or_int_def)

lemma dispatch_calls:
  "p_container s = Some h \<Longrightarrow>
     calls (snd (snd (dispatch cmd wd tmo s w))) = calls w @ [ExecRun h cmd wd]"
  by (auto simp add: dispatch_def dispatch_failed_def time_time_def log_call_def
      ExecutionResult_init_def Let_def split: sum.splits if_splits prod.splits)

text \<open>The scenario of the specification: a command that prints, on a healthy runtime.\<close>

lemma execute_world_ok:
  "fst (execute ''1'' None None None sandbox0 world_ok) =
     Inr \<lparr>stdout = ''health_check'', stderr = [], exit_code = 0, execution_time = 1,
           timeout_occurred = False, container_id = ''c0ffee'', command = ''python3 -c 1''\<rparr>"
  by (simp add: session_defs sample_defs)

lemma is_healthy_world_ok: "fst (is_healthy sandbox0 world_ok) = Inr True"
  by (simp add: is_healthy_def is_healthy_body_def except_return_def session_defs
      sample_defs success_def health_probe_def)

lemma is_healthy_world_missing: "fst (is_healthy sandbox0 world_missing) = Inr False"
  by (simp add: is_healthy_def is_healthy_body_def except_return_def session_defs sample_defs)

text \<open>
  A zero override of the timeout: the command takes one second, the configured timeout
  of ten seconds is the one compared with, and the flag stays false.
\<close>

lemma zero_override_uses_config_timeout:
  "fst (execute ''1'' None None (Some 0) sandbox0 world_ok) =
     Inr \<lparr>stdout = ''health_check'', stderr = [], exit_code = 0, execution_time = 1,
           timeout_occurred = False, container_id = ''c0ffee'', command = ''python3 -c 1''\<rparr>"
  by (simp add: session_defs sample_defs)

section \<open>Result classification\<close>

text \<open>
  Claim C1. For every execution result, \<open>success\<close> is exactly "exit code zero and no
  timeout", and \<open>return_value\<close> follows this precedence over the stored fields: standard
  output when successful and non-empty; else standard error when non-empty, also for a
  failed command; else, when not successful, the generic message with the exit code; else
  empty output.
\<close>

theorem return_value_precedence:
  "success r = (exit_code r = 0 \<and> \<not> timeout_occurred r) \<and>
   return_value r =
     (if exit_code r = 0 \<and> \<not> timeout_occurred r \<and> stdout r \<noteq> []
        then \<lparr>rtype = OUTPUT, content = stdout r\<rparr>
      else if stderr r \<noteq> [] then \<lparr>rtype = ERROR, content = stderr r\<rparr>
      else if \<not> (exit_code r = 0 \<and> \<not> timeout_occurred r)
        then \<lparr>rtype = ERROR, content = ''Command failed with exit code '' @ str_of_int (exit_code r)\<rparr>
      else \<lparr>rtype = OUTPUT, content = []\<rparr>)"
  by (simp add: success_def return_value_def)

section \<open>Configuration\<close>

text \<open>
  Claim C5. Constructing a configuration with a given timeout fails with a validation
  error exactly when the timeout is below 1 or above 3600, and succeeds, keeping the
  value, exactly when it is within the bounds: 0 and 3601 fail, 1 and 3600 succeed. With
  no timeout given the configuration has timeout 30.
\<close>

theorem config_timeout_bounds:
  "((\<exists>m. SandboxConfig_init c wd (Some t) sh = Inl (ValidationError m)) = (t < 1 \<or> 3600 < t)) \<and>
   ((\<exists>cfg. SandboxConfig_init c wd (Some t) sh = Inr cfg \<and> timeout cfg = t) = (1 \<le> t \<and> t \<le> 3600)) \<and>
   (\<exists>m. SandboxConfig_init c wd (Some 0) sh = Inl (ValidationError m)) \<and>
   (\<exists>m. SandboxConfig_init c wd (Some 3601) sh = Inl (ValidationError m)) \<and>
   (\<exists>cfg. SandboxConfig_init c wd (Some 1) sh = Inr cfg \<and> timeout cfg = 1) \<and>
   (\<exists>cfg. SandboxConfig_init c wd (Some 3600) sh = Inr cfg \<and> timeout cfg = 3600) \<and>
   (\<exists>cfg. SandboxConfig_init c wd None sh = Inr cfg \<and> timeout cfg = 30)"
  by (auto simp add: SandboxConfig_init_def validate_timeout_def)

text \<open>
  Claim C6. On a constructed configuration, assigning to any of the four fields
  (container, workdir, timeout, shell) raises, whatever the value, and leaves the
  configuration as it was.
\<close>

theorem config_frozen:
  "fst (SandboxConfig_setattr cfg (Set_container v1)) \<noteq> None \<and>
   snd (SandboxConfig_setattr cfg (Set_container v1)) = cfg \<and>
   fst (SandboxConfig_setattr cfg (Set_workdir v2)) \<noteq> None \<and>
   snd (SandboxConfig_setattr cfg (Set_workdir v2)) = cfg \<and>
   fst (SandboxConfig_setattr cfg (Set_timeout v3)) \<noteq> None \<and>
   snd (SandboxConfig_setattr cfg (Set_timeout v3)) = cfg \<and>
   fst (SandboxConfig_setattr cfg (Set_shell v4)) \<noteq> None \<and>
   snd (SandboxConfig_setattr cfg (Set_shell v4)) = cfg"
  by (simp add: SandboxConfig_setattr_def model_setattr_def SandboxConfig_Config_def)

section \<open>Connecting\<close>

text \<open>
  Claim C9. Connecting is not atomic on failure. From an unconnected session, when the
  client is acquired and resolving the container then fails (the container is not found,
  or the runtime reports an API error), the exception leaves \<open>connect\<close> with the
  acquired client kept in the session and no container handle; the two runtime calls
  issued are the acquisition and the lookup. A later \<open>connect\<close> on that session, in
  any world, issues the container lookup only and does not acquire a client again.
\<close>

theorem connect_not_atomic:
  assumes "p_client s = None" and "p_container s = None"
    and "from_env w (length (calls w)) = Inr c"
  shows
    "(containers_get w (Suc (length (calls w))) c (container (config s)) = Inl (NotFound m) \<longrightarrow>
        connect s w =
          (Inl (ContainerNotFoundError (''Container '' @ [CHR 0x27] @ container (config s) @ [CHR 0x27] @ '' not found'')),
           s\<lparr>p_client := Some c\<rparr>,
           w\<lparr>calls := calls w @ [FromEnv, ContainersGet c (container (config s))]\<rparr>)) \<and>
     (containers_get w (Suc (length (calls w))) c (container (config s)) = Inl (APIError m) \<longrightarrow>
        connect s w =
          (Inl (ContainerConnectionError (''Failed to access container: '' @ m)),
           s\<lparr>p_client := Some c\<rparr>,
           w\<lparr>calls := calls w @ [FromEnv, ContainersGet c (container (config s))]\<rparr>)) \<and>
     calls (snd (snd (connect (s\<lparr>p_client := Some c\<rparr>) w'))) =
       calls w' @ [ContainersGet c (container (config s))]"
  using assms
  by (auto simp add: connect_def log_call_def Let_def split: sum.splits exn.splits)

theorem connect_not_atomic_witness:
  "p_client sandbox0 = None \<and> p_container sandbox0 = None \<and>
   from_env world_missing (length (calls world_missing)) = Inr (DockerClient 0) \<and>
   containers_get world_missing (Suc (length (calls world_missing))) (DockerClient 0) (container (config sandbox0))
     = Inl (NotFound ''No such container'') \<and>
   from_env world_api_error (length (calls world_api_error)) = Inr (DockerClient 0) \<and>
   containers_get world_api_error (Suc (length (calls world_api_error))) (DockerClient 0) (container (config sandbox0))
     = Inl (APIError ''500 Server Error'') \<and>
   connect sandbox0 world_missing =
     (Inl (ContainerNotFoundError (''Container '' @ [CHR 0x27] @ ''sandbox'' @ [CHR 0x27] @ '' not found'')),
      sandbox0\<lparr>p_client := Some (DockerClient 0)\<rparr>,
      world_missing\<lparr>calls := [FromEnv, ContainersGet (DockerClient 0) ''sandbox'']\<rparr>) \<and>
   connect sandbox0 world_api_error =
     (Inl (ContainerConnectionError ''Failed to access container: 500 Server Error''),
      sandbox0\<lparr>p_client := Some (DockerClient 0)\<rparr>,
      world_api_error\<lparr>calls := [FromEnv, ContainersGet (DockerClient 0) ''sandbox'']\<rparr>) \<and>
   calls (snd (snd (connect (sandbox0\<lparr>p_client := Some (DockerClient 0)\<rparr>)
       (world_missing\<lparr>calls := [FromEnv, ContainersGet (DockerClient 0) ''sandbox'']\<rparr>)))) =
     [FromEnv, ContainersGet (DockerClient 0) ''sandbox'', ContainersGet (DockerClient 0) ''sandbox'']"
proof -
  have a: "p_client sandbox0 = None" and b: "p_container sandbox0 = None"
    by (simp_all add: sample_defs)
  have c1: "from_env world_missing (length (calls world_missing)) = Inr (DockerClient 0)"
    and c2: "from_env world_api_error (length (calls world_api_error)) = Inr (DockerClient 0)"
    by (simp_all add: sample_defs)
  show ?thesis
    using a b c1 c2
      connect_not_atomic [OF a b c1, where m = "''No such container''"
        and w' = "world_missing\<lparr>calls := [FromEnv, ContainersGet (DockerClient 0) ''sandbox'']\<rparr>"]
      connect_not_atomic [OF a b c2, where m = "''500 Server Error''"]
    by (simp add: sample_defs)
qed

section \<open>Executing\<close>

text \<open>
  Claim C2, as stated, fails. The dispatch raises while the clock has been set back: the
  handler computes a negative elapsed time, the result model refuses it, and the
  validation error leaves \<open>execute\<close> and \<open>execute_shell\<close>. And a dispatch
  interrupted from the keyboard is not caught by the handler: the interrupt leaves
  \<open>execute\<close>.
\<close>

theorem dispatch_exception_counterexample:
  "exec_run world_back 2 (Container ''c0ffee'') [''python3'', ''-c'', ''1''] ''/projects''
     = Inl (OtherException ''read timed out'') \<and>
   fst (execute ''1'' None None None sandbox0 world_back) =
     Inl (ValidationError ''execution_time: Input should be greater than or equal to 0'') \<and>
   fst (execute_shell ''ls'' None None None sandbox0 world_back) =
     Inl (ValidationError ''execution_time: Input should be greater than or equal to 0'') \<and>
   exec_run world_interrupt 2 (Container ''c0ffee'') [''python3'', ''-c'', ''1''] ''/projects''
     = Inl (KeyboardInterrupt []) \<and>
   fst (execute ''1'' None None None sandbox0 world_interrupt) = Inl (KeyboardInterrupt [])"
  by (simp add: session_defs sample_defs)

text \<open>
  Claim C2, amended. When the session connects and the dispatch call raises an exception
  of the \<^verbatim>\<open>Exception\<close> hierarchy, and the clock reading taken in the handler is not
  earlier than the one taken before the dispatch, neither \<open>execute\<close> nor
  \<open>execute_shell\<close> raises: each returns a result with exit code -1, the exception's
  message as standard error, empty standard output and, as execution time, the
  difference of the two clock readings.
\<close>

theorem dispatch_exception_recovered:
  assumes conn: "connect s w = (Inr u, s1, w1)"
    and h: "p_container s1 = Some h"
    and clk: "clock w1 (ticks w1) \<le> clock w1 (Suc (ticks w1))"
    and exc: "is_Exception e"
  shows
    "(exec_run w1 (length (calls w1)) h [''python3'', ''-c'', code] (or_str wd (workdir (config s1))) = Inl e \<longrightarrow>
      execute code stdin wd tmo s w =
        (Inr \<lparr>stdout = [], stderr = str_exn e, exit_code = - 1,
               execution_time = clock w1 (Suc (ticks w1)) - clock w1 (ticks w1),
               timeout_occurred = False, container_id = handle_id h,
               command = join_space [''python3'', ''-c'', code]\<rparr>,
         s1,
         w1\<lparr>calls := calls w1 @ [ExecRun h [''python3'', ''-c'', code] (or_str wd (workdir (config s1)))],
            ticks := Suc (Suc (ticks w1))\<rparr>)) \<and>
     (exec_run w1 (length (calls w1)) h [or_str sh (shell (config s1)), ''-c'', cmdline] (or_str wd (workdir (config s1))) = Inl e \<longrightarrow>
      execute_shell cmdline wd tmo sh s w =
        (Inr \<lparr>stdout = [], stderr = str_exn e, exit_code = - 1,
               execution_time = clock w1 (Suc (ticks w1)) - clock w1 (ticks w1),
               timeout_occurred = False, container_id = handle_id h,
               command = join_space [or_str sh (shell (config s1)), ''-c'', cmdline]\<rparr>,
         s1,
         w1\<lparr>calls := calls w1 @ [ExecRun h [or_str sh (shell (config s1)), ''-c'', cmdline] (or_str wd (workdir (config s1)))],
            ticks := Suc (Suc (ticks w1))\<rparr>))"
  using conn h clk exc
  by (simp add: execute_def execute_shell_def dispatch_def dispatch_failed_def time_time_def
      log_call_def ExecutionResult_init_def Let_def)

theorem dispatch_exception_recovered_witness:
  "connect sandbox1 world_raise = (Inr (), sandbox1, world_raise) \<and>
   p_container sandbox1 = Some (Container ''c0ffee'') \<and>
   clock world_raise (ticks world_raise) \<le> clock world_raise (Suc (ticks world_raise)) \<and>
   exec_run world_raise (length (calls world_raise)) (Container ''c0ffee'') [''python3'', ''-c'', ''1''] ''/projects''
     = Inl (OtherException ''read timed out'') \<and>
   exec_run world_raise (length (calls world_raise)) (Container ''c0ffee'') [''/bin/bash'', ''-c'', ''ls''] ''/projects''
     = Inl (OtherException ''read timed out'') \<and>
   fst (execute ''1'' None None None sandbox1 world_raise) =
     Inr \<lparr>stdout = [], stderr = ''read timed out'', exit_code = - 1, execution_time = 100,
           timeout_occurred = False, container_id = ''c0ffee'', command = ''python3 -c 1''\<rparr> \<and>
   fst (execute_shell ''ls'' None None None sandbox1 world_raise) =
     Inr \<lparr>stdout = [], stderr = ''read timed out'', exit_code = - 1, execution_time = 100,
           timeout_occurred = False, container_id = ''c0ffee'', command = ''/bin/bash -c ls''\<rparr>"
proof -
  have conn: "connect sandbox1 world_raise = (Inr (), sandbox1, world_raise)"
    by (rule connect_sandbox1)
  have h: "p_container sandbox1 = Some (Container ''c0ffee'')"
    by (simp add: sample_defs)
  have clk: "clock world_raise (ticks world_raise) \<le> clock world_raise (Suc (ticks world_raise))"
    by (simp add: sample_defs)
  have exc: "is_Exception (OtherException ''read timed out'')"
    by simp
  show ?thesis
    using conn h clk exc
      dispatch_exception_recovered [OF conn h clk exc, where code = "''1''" and wd = None
        and stdin = None and tmo = None and sh = None and cmdline = "''ls''"]
    by (simp add: sample_defs or_str_def)
qed

text \<open>
  Claim C3, as stated, fails. In the scenario's session (timeout 10 seconds) the dispatch
  raises a hundred seconds after it started: the result returned has execution time 100
  and \<open>timeout_occurred\<close> false.
\<close>

theorem timeout_flag_counterexample:
  "fst (execute ''1'' None None None sandbox0 world_raise) = Inr raised_result \<and>
   \<not> (timeout_occurred raised_result = (execution_time raised_result > of_int (timeout (config sandbox0))))"
  by (simp add: session_defs sample_defs raised_result_def)

text \<open>
  Claim C3, amended. When the session connects, the dispatch call returns and both
  captured streams decode, every result returned by \<open>execute\<close> or \<open>execute_shell\<close>
  has \<open>timeout_occurred\<close> true exactly when its execution time exceeds the effective
  timeout: the per-call override when one is given and is not zero, else the timeout of
  the session's configuration.
\<close>

theorem timeout_flag_after_return:
  assumes conn: "connect s w = (Inr u, s1, w1)"
    and h: "p_container s1 = Some h"
  shows
    "(exec_run w1 (length (calls w1)) h [''python3'', ''-c'', code] (or_str wd (workdir (config s1))) = Inr res \<and>
      decode_or_empty w1 (res_stdout res) = Inr out \<and>
      decode_or_empty w1 (res_stderr res) = Inr err \<and>
      execute code stdin wd tmo s w = (Inr r, s', w') \<longrightarrow>
        timeout_occurred r = (execution_time r > of_int (or_int tmo (timeout (config s))))) \<and>
     (exec_run w1 (length (calls w1)) h [or_str sh (shell (config s1)), ''-c'', cmdline] (or_str wd (workdir (config s1))) = Inr res \<and>
      decode_or_empty w1 (res_stdout res) = Inr out \<and>
      decode_or_empty w1 (res_stderr res) = Inr err \<and>
      execute_shell cmdline wd tmo sh s w = (Inr r, s', w') \<longrightarrow>
        timeout_occurred r = (execution_time r > of_int (or_int tmo (timeout (config s)))))"
proof -
  have cfg: "config s1 = config s"
    using conn by (rule connect_config)
  have dec: "\<And>b x. decode_or_empty (w1\<lparr>calls := x, ticks := Suc (Suc (ticks w1))\<rparr>) b = decode_or_empty w1 b"
    by (simp add: decode_or_empty_def split: option.splits)
  show ?thesis
    using conn h cfg
    by (auto simp add: execute_def execute_shell_def dispatch_def time_time_def log_call_def
        ExecutionResult_init_def Let_def dec split: if_splits)
qed

theorem timeout_flag_after_return_witness:
  "connect sandbox1 world_slow = (Inr (), sandbox1, world_slow) \<and>
   p_container sandbox1 = Some (Container ''c0ffee'') \<and>
   exec_run world_slow (length (calls world_slow)) (Container ''c0ffee'') [''python3'', ''-c'', ''1'']
       (or_str None (workdir (config sandbox1))) = Inr (ExecResult 0 (Some ''health_check'') None) \<and>
   exec_run world_slow (length (calls world_slow)) (Container ''c0ffee'')
       [or_str None (shell (config sandbox1)), ''-c'', ''ls'']
       (or_str None (workdir (config sandbox1))) = Inr (ExecResult 0 (Some ''health_check'') None) \<and>
   decode_or_empty world_slow (Some ''health_check'') = Inr ''health_check'' \<and>
   decode_or_empty world_slow None = Inr [] \<and>
   execute ''1'' None None (Some 0) sandbox1 world_slow =
     (Inr \<lparr>stdout = ''health_check'', stderr = [], exit_code = 0, execution_time = 60,
            timeout_occurred = True, container_id = ''c0ffee'', command = ''python3 -c 1''\<rparr>,
      sandbox1,
      world_slow\<lparr>calls := [ExecRun (Container ''c0ffee'') [''python3'', ''-c'', ''1''] ''/projects''],
                 ticks := 2\<rparr>) \<and>
   execute_shell ''ls'' None (Some 90) None sandbox1 world_slow =
     (Inr \<lparr>stdout = ''health_check'', stderr = [], exit_code = 0, execution_time = 60,
            timeout_occurred = False, container_id = ''c0ffee'', command = ''/bin/bash -c ls''\<rparr>,
      sandbox1,
      world_slow\<lparr>calls := [ExecRun (Container ''c0ffee'') [''/bin/bash'', ''-c'', ''ls''] ''/projects''],
                 ticks := 2\<rparr>) \<and>
   True = ((60::real) > of_int (or_int (Some 0) (timeout (config sandbox1)))) \<and>
   False = ((60::real) > of_int (or_int (Some 90) (timeout (config sandbox1))))"
proof -
  have conn: "connect sandbox1 world_slow = (Inr (), sandbox1, world_slow)"
    by (rule connect_sandbox1)
  have h: "p_container sandbox1 = Some (Container ''c0ffee'')"
    by (simp add: sample_defs)
  have ex1: "execute ''1'' None None (Some 0) sandbox1 world_slow =
     (Inr \<lparr>stdout = ''health_check'', stderr = [], exit_code = 0, execution_time = 60,
            timeout_occurred = True, container_id = ''c0ffee'', command = ''python3 -c 1''\<rparr>,
      sandbox1,
      world_slow\<lparr>calls := [ExecRun (Container ''c0ffee'') [''python3'', ''-c'', ''1''] ''/projects''],
                 ticks := 2\<rparr>)"
    by (simp add: session_defs sample_defs)
  have ex2: "execute_shell ''ls'' None (Some 90) None sandbox1 world_slow =
     (Inr \<lparr>stdout = ''health_check'', stderr = [], exit_code = 0, execution_time = 60,
            timeout_occurred = False, container_id = ''c0ffee'', command = ''/bin/bash -c ls''\<rparr>,
      sandbox1,
      world_slow\<lparr>calls := [ExecRun (Container ''c0ffee'') [''/bin/bash'', ''-c'', ''ls''] ''/projects''],
                 ticks := 2\<rparr>)"
    by (simp add: session_defs sample_defs)
  show ?thesis
    using conn h ex1 ex2
      timeout_flag_after_return [OF conn h, where code = "''1''" and wd = None
        and res = "ExecResult 0 (Some ''health_check'') None" and out = "''health_check''"
        and err = "[]" and stdin = None and tmo = "Some 0" and sh = None and cmdline = "''ls''"]
      timeout_flag_after_return [OF conn h, where code = "''1''" and wd = None
        and res = "ExecResult 0 (Some ''health_check'') None" and out = "''health_check''"
        and err = "[]" and stdin = None and tmo = "Some 90" and sh = None and cmdline = "''ls''"]
    by (simp add: sample_defs decode_or_empty_def or_str_def or_int_def)
qed

text \<open>
  Claim C10. A falsy per-call override is treated as absent and the session
  configuration's value is used. \<open>execute\<close> and \<open>execute_shell\<close> called with an
  empty workdir behave as when called with none, with timeout zero as with none, and
  \<open>execute_shell\<close> with an empty shell as with none. Once connected, the call with
  the falsy override is the dispatch with the configuration's workdir, timeout or shell
  in its place: the runtime call logged carries the configuration's workdir and shell,
  and after a zero timeout the flag of the result compares the execution time with the
  configuration's timeout.
\<close>

theorem falsy_override_is_absent:
  "execute code stdin (Some []) tmo s w = execute code stdin None tmo s w \<and>
   execute code stdin wd (Some 0) s w = execute code stdin wd None s w \<and>
   execute_shell cmdline (Some []) tmo sh s w = execute_shell cmdline None tmo sh s w \<and>
   execute_shell cmdline wd (Some 0) sh s w = execute_shell cmdline wd None sh s w \<and>
   execute_shell cmdline wd tmo (Some []) s w = execute_shell cmdline wd tmo None s w \<and>
   or_str None (workdir cfg) = workdir cfg \<and>
   or_int None (timeout cfg) = timeout cfg \<and>
   or_str None (shell cfg) = shell cfg \<and>
   (connect s w = (Inr u, s1, w1) \<longrightarrow>
      execute code stdin (Some []) tmo s w =
        dispatch [''python3'', ''-c'', code] (workdir (config s)) (or_int tmo (timeout (config s))) s1 w1 \<and>
      execute code stdin wd (Some 0) s w =
        dispatch [''python3'', ''-c'', code] (or_str wd (workdir (config s))) (timeout (config s)) s1 w1 \<and>
      execute_shell cmdline (Some []) tmo sh s w =
        dispatch [or_str sh (shell (config s)), ''-c'', cmdline] (workdir (config s))
          (or_int tmo (timeout (config s))) s1 w1 \<and>
      execute_shell cmdline wd (Some 0) sh s w =
        dispatch [or_str sh (shell (config s)), ''-c'', cmdline] (or_str wd (workdir (config s)))
          (timeout (config s)) s1 w1 \<and>
      execute_shell cmdline wd tmo (Some []) s w =
        dispatch [shell (config s), ''-c'', cmdline] (or_str wd (workdir (config s)))
          (or_int tmo (timeout (config s))) s1 w1) \<and>
   (connect s w = (Inr u, s1, w1) \<and> p_container s1 = Some h \<longrightarrow>
      calls (snd (snd (execute code stdin (Some []) tmo s w))) =
        calls w1 @ [ExecRun h [''python3'', ''-c'', code] (workdir (config s))] \<and>
      calls (snd (snd (execute_shell cmdline (Some []) tmo (Some []) s w))) =
        calls w1 @ [ExecRun h [shell (config s), ''-c'', cmdline] (workdir (config s))]) \<and>
   (connect s w = (Inr u, s1, w1) \<and> p_container s1 = Some h \<and>
    exec_run w1 (length (calls w1)) h [''python3'', ''-c'', code] (or_str wd (workdir (config s))) = Inr res \<and>
    decode_or_empty w1 (res_stdout res) = Inr out \<and>
    decode_or_empty w1 (res_stderr res) = Inr err \<and>
    execute code stdin wd (Some 0) s w = (Inr r, s', w') \<longrightarrow>
      timeout_occurred r = (execution_time r > of_int (timeout (config s)))) \<and>
   (connect s w = (Inr u, s1, w1) \<and> p_container s1 = Some h \<and>
    exec_run w1 (length (calls w1)) h [or_str sh (shell (config s)), ''-c'', cmdline]
      (or_str wd (workdir (config s))) = Inr res \<and>
    decode_or_empty w1 (res_stdout res) = Inr out \<and>
    decode_or_empty w1 (res_stderr res) = Inr err \<and>
    execute_shell cmdline wd (Some 0) sh s w = (Inr r, s', w') \<longrightarrow>
      timeout_occurred r = (execution_time r > of_int (timeout (config s))))"
proof -
  have d: "or_str None (workdir cfg) = workdir cfg" "or_int None (timeout cfg) = timeout cfg"
    "or_str None (shell cfg) = shell cfg"
    by (simp_all add: or_str_def or_int_def)
  have eqs: "execute code stdin (Some []) tmo s w = execute code stdin None tmo s w"
    "execute code stdin wd (Some 0) s w = execute code stdin wd None s w"
    "execute_shell cmdline (Some []) tmo sh s w = execute_shell cmdline None tmo sh s w"
    "execute_shell cmdline wd (Some 0) sh s w = execute_shell cmdline wd None sh s w"
    "execute_shell cmdline wd tmo (Some []) s w = execute_shell cmdline wd tmo None s w"
    unfolding execute_def execute_shell_def or_str_empty or_int_zero by simp_all
  have disp: "execute code stdin (Some []) tmo s w =
        dispatch [''python3'', ''-c'', code] (workdir (config s)) (or_int tmo (timeout (config s))) s1 w1"
      "execute code stdin wd (Some 0) s w =
        dispatch [''python3'', ''-c'', code] (or_str wd (workdir (config s))) (timeout (config s)) s1 w1"
      "execute_shell cmdline (Some []) tmo sh s w =
        dispatch [or_str sh (shell (config s)), ''-c'', cmdline] (workdir (config s))
          (or_int tmo (timeout (config s))) s1 w1"
      "execute_shell cmdline wd (Some 0) sh s w =
        dispatch [or_str sh (shell (config s)), ''-c'', cmdline] (or_str wd (workdir (config s)))
          (timeout (config s)) s1 w1"
      "execute_shell cmdline wd tmo (Some []) s w =
        dispatch [shell (config s), ''-c'', cmdline] (or_str wd (workdir (config s)))
          (or_int tmo (timeout (config s))) s1 w1"
    if "connect s w = (Inr u, s1, w1)"
    using that connect_config [OF that]
    by (simp_all add: execute_def execute_shell_def Let_def or_str_empty or_int_zero
        or_str_None or_int_None)
  have logs: "calls (snd (snd (execute code stdin (Some []) tmo s w))) =
        calls w1 @ [ExecRun h [''python3'', ''-c'', code] (workdir (config s))]"
      "calls (snd (snd (execute_shell cmdline (Some []) tmo (Some []) s w))) =
        calls w1 @ [ExecRun h [shell (config s), ''-c'', cmdline] (workdir (config s))]"
    if "connect s w = (Inr u, s1, w1)" and "p_container s1 = Some h"
    using that connect_config [OF that(1)]
    by (simp_all add: execute_def execute_shell_def Let_def or_str_empty or_str_None dispatch_calls)
  have flag: "timeout_occurred r = (execution_time r > of_int (timeout (config s)))"
    if "connect s w = (Inr u, s1, w1)" and "p_container s1 = Some h"
      and "exec_run w1 (length (calls w1)) h cmd (or_str wd (workdir (config s))) = Inr res"
      and "decode_or_empty w1 (res_stdout res) = Inr out"
      and "decode_or_empty w1 (res_stderr res) = Inr err"
      and "dispatch cmd (or_str wd (workdir (config s))) (timeout (config s)) s1 w1 = (Inr r, s', w')"
    for cmd
    using that
    by (auto simp add: dispatch_def time_time_def log_call_def ExecutionResult_init_def Let_def
        decode_or_empty_logged split: if_splits)
  show ?thesis
    using d eqs disp logs flag by metis
qed

theorem falsy_override_is_absent_witness:
  "connect sandbox1 world_slow = (Inr (), sandbox1, world_slow) \<and>
   p_container sandbox1 = Some (Container ''c0ffee'') \<and>
   workdir (config sandbox1) = ''/projects'' \<and>
   timeout (config sandbox1) = 10 \<and>
   shell (config sandbox1) = ''/bin/bash'' \<and>
   exec_run world_slow (length (calls world_slow)) (Container ''c0ffee'') [''python3'', ''-c'', ''1'']
       ''/projects'' = Inr (ExecResult 0 (Some ''health_check'') None) \<and>
   exec_run world_slow (length (calls world_slow)) (Container ''c0ffee'') [''/bin/bash'', ''-c'', ''ls'']
       ''/projects'' = Inr (ExecResult 0 (Some ''health_check'') None) \<and>
   decode_or_empty world_slow (Some ''health_check'') = Inr ''health_check'' \<and>
   decode_or_empty world_slow None = Inr [] \<and>
   execute ''1'' None (Some []) (Some 0) sandbox1 world_slow =
     (Inr \<lparr>stdout = ''health_check'', stderr = [], exit_code = 0, execution_time = 60,
            timeout_occurred = True, container_id = ''c0ffee'', command = ''python3 -c 1''\<rparr>,
      sandbox1,
      world_slow\<lparr>calls := [ExecRun (Container ''c0ffee'') [''python3'', ''-c'', ''1''] ''/projects''],
                 ticks := 2\<rparr>) \<and>
   execute_shell ''ls'' (Some []) (Some 0) (Some []) sandbox1 world_slow =
     (Inr \<lparr>stdout = ''health_check'', stderr = [], exit_code = 0, execution_time = 60,
            timeout_occurred = True, container_id = ''c0ffee'', command = ''/bin/bash -c ls''\<rparr>,
      sandbox1,
      world_slow\<lparr>calls := [ExecRun (Container ''c0ffee'') [''/bin/bash'', ''-c'', ''ls''] ''/projects''],
                 ticks := 2\<rparr>)"
proof -
  have conn: "connect sandbox1 world_slow = (Inr (), sandbox1, world_slow)"
    by (rule connect_sandbox1)
  have h: "p_container sandbox1 = Some (Container ''c0ffee'')"
    by (simp add: sample_defs)
  have ex1: "execute ''1'' None (Some []) (Some 0) sandbox1 world_slow =
     (Inr \<lparr>stdout = ''health_check'', stderr = [], exit_code = 0, execution_time = 60,
            timeout_occurred = True, container_id = ''c0ffee'', command = ''python3 -c 1''\<rparr>,
      sandbox1,
      world_slow\<lparr>calls := [ExecRun (Container ''c0ffee'') [''python3'', ''-c'', ''1''] ''/projects''],
                 ticks := 2\<rparr>)"
    by (simp add: session_defs sample_defs)
  have ex2: "execute_shell ''ls'' (Some []) (Some 0) (Some []) sandbox1 world_slow =
     (Inr \<lparr>stdout = ''health_check'', stderr = [], exit_code = 0, execution_time = 60,
            timeout_occurred = True, container_id = ''c0ffee'', command = ''/bin/bash -c ls''\<rparr>,
      sandbox1,
      world_slow\<lparr>calls := [ExecRun (Container ''c0ffee'') [''/bin/bash'', ''-c'', ''ls''] ''/projects''],
                 ticks := 2\<rparr>)"
    by (simp add: session_defs sample_defs)
  show ?thesis
    using conn h ex1 ex2
      falsy_override_is_absent [where s = sandbox1 and w = world_slow and u = "()"
        and ?s1.0 = sandbox1 and ?w1.0 = world_slow and h = "Container ''c0ffee''"
        and code = "''1''" and stdin = None and wd = "Some []" and tmo = "Some 0"
        and cmdline = "''ls''" and sh = "Some []"
        and res = "ExecResult 0 (Some ''health_check'') None" and out = "''health_check''"
        and err = "[]"]
    by (simp add: sample_defs decode_or_empty_def)
qed

section \<open>Executing a file\<close>

text \<open>
  Claim C4. When opening the file raises \<open>FileNotFoundError\<close>, \<open>execute_file\<close>
  returns a result with exit code 1, standard error "File not found: " followed by the
  path, and execution time 0; the session and the world, with its log of runtime calls,
  are as they were: nothing was asked of the runtime.
\<close>

theorem execute_file_not_found:
  assumes "open_read w filepath = Inl (FileNotFoundError m)"
  shows "execute_file filepath args wd tmo s w =
           (Inr \<lparr>stdout = [], stderr = ''File not found: '' @ filepath, exit_code = 1,
                  execution_time = 0, timeout_occurred = False,
                  container_id = (case p_container s of Some h \<Rightarrow> handle_id h | None \<Rightarrow> []),
                  command = ''python3 '' @ filepath\<rparr>, s, w)"
  using assms by (simp add: execute_file_def ExecutionResult_init_def)

theorem execute_file_not_found_witness:
  "open_read world_ok ''missing.py'' = Inl (FileNotFoundError ''missing.py'') \<and>
   execute_file ''missing.py'' (Some [''-v'']) None None sandbox0 world_ok =
     (Inr \<lparr>stdout = [], stderr = ''File not found: missing.py'', exit_code = 1,
            execution_time = 0, timeout_occurred = False, container_id = [],
            command = ''python3 missing.py''\<rparr>, sandbox0, world_ok) \<and>
   calls world_ok = []"
proof -
  have h: "open_read world_ok ''missing.py'' = Inl (FileNotFoundError ''missing.py'')"
    by (simp add: world_ok_def)
  show ?thesis
    using h execute_file_not_found [OF h, of "Some [''-v'']" None None sandbox0]
    by (simp add: sandbox0_def world_ok_def)
qed

text \<open>
  Claim C8. The \<open>args\<close> parameter of \<open>execute_file\<close> has no effect: with any list of
  arguments the outcome, the session and the world afterwards, log of runtime calls
  included, are those of the call without arguments.
\<close>

theorem execute_file_args_unused:
  "execute_file filepath args wd tmo s w = execute_file filepath None wd tmo s w"
  by (simp add: execute_file_def)

section \<open>Health check\<close>

text \<open>
  Claim C7, as stated, fails. The probe's dispatch is interrupted from the keyboard: the
  interrupt is not an \<^verbatim>\<open>Exception\<close>, no handler on the way catches it, and it
  leaves \<open>is_healthy\<close>.
\<close>

theorem is_healthy_counterexample:
  "exec_run world_interrupt 2 (Container ''c0ffee'') [''python3'', ''-c'', health_probe] ''/projects''
     = Inl (KeyboardInterrupt []) \<and>
   fst (is_healthy sandbox0 world_interrupt) = Inl (KeyboardInterrupt [])"
  by (simp add: is_healthy_def is_healthy_body_def except_return_def session_defs sample_defs)

text \<open>
  Claim C7, amended. \<open>is_healthy\<close> never raises an exception of the
  \<^verbatim>\<open>Exception\<close> hierarchy: an exception that leaves it is outside that hierarchy;
  when the runtime and the decoding raise only exceptions of the hierarchy it returns a
  boolean; and a boolean it returns is true exactly when connecting succeeded and the
  probe's \<open>execute\<close> returned a result that is successful and has the probe marker in
  its standard output.
\<close>

theorem is_healthy_never_raises:
  "(is_healthy s w = (Inl e, s', w') \<longrightarrow> \<not> is_Exception e) \<and>
   (is_healthy s w = (Inr b, s', w') \<longrightarrow>
      b = (\<exists>u s1 w1 result s2 w2.
             connect s w = (Inr u, s1, w1) \<and>
             execute health_probe None None (Some 5) s1 w1 = (Inr result, s2, w2) \<and>
             success result \<and> str_contains ''health_check'' (stdout result))) \<and>
   ((\<forall>n x. from_env w n = Inl x \<longrightarrow> is_Exception x) \<and>
    (\<forall>n c name x. containers_get w n c name = Inl x \<longrightarrow> is_Exception x) \<and>
    (\<forall>n h c d x. exec_run w n h c d = Inl x \<longrightarrow> is_Exception x) \<and>
    (\<forall>bs x. decode w bs = Inl x \<longrightarrow> is_Exception x) \<longrightarrow>
      (\<exists>v sf wf. is_healthy s w = (Inr v, sf, wf)))"
proof (cases "connect s w" rule: prod_cases3)
  case c: (fields r1 s1 w1)
  show ?thesis
  proof (cases r1)
    case (Inl e1)
    have "is_Exception e1"
      if "\<forall>n x. from_env w n = Inl x \<longrightarrow> is_Exception x"
        and "\<forall>n c name x. containers_get w n c name = Inl x \<longrightarrow> is_Exception x"
      using that c Inl connect_raises_Exception [of w s e1 s1 w1] by blast
    with c Inl show ?thesis
      by (auto simp add: is_healthy_def is_healthy_body_def except_return_def split: if_splits)
  next
    case (Inr u)
    from connect_oracles [OF c]
    have o: "from_env w1 = from_env w" "containers_get w1 = containers_get w"
      "exec_run w1 = exec_run w" "decode w1 = decode w" by simp_all
    show ?thesis
    proof (cases "execute health_probe None None (Some 5) s1 w1" rule: prod_cases3)
      case x: (fields r2 s2 w2)
      show ?thesis
      proof (cases r2)
        case (Inl e2)
        have "is_Exception e2"
          if "\<forall>n x. from_env w n = Inl x \<longrightarrow> is_Exception x"
            and "\<forall>n c name x. containers_get w n c name = Inl x \<longrightarrow> is_Exception x"
            and "\<forall>n h c d x. exec_run w n h c d = Inl x \<longrightarrow> is_Exception x"
            and "\<forall>bs x. decode w bs = Inl x \<longrightarrow> is_Exception x"
          using that x Inl o
            execute_raises_Exception [of w1 health_probe None None "Some 5" s1 e2 s2 w2]
          by auto
        with c Inr x Inl show ?thesis
          by (auto simp add: is_healthy_def is_healthy_body_def except_return_def split: if_splits)
      next
        case r: (Inr result)
        with c Inr x show ?thesis
          by (auto simp add: is_healthy_def is_healthy_body_def except_return_def)
      qed
    qed
  qed
qed

theorem is_healthy_never_raises_witness:
  "is_healthy sandbox0 world_interrupt =
     (Inl (KeyboardInterrupt []), sandbox1,
      world_interrupt\<lparr>calls := [FromEnv, ContainersGet (DockerClient 0) ''sandbox'',
          ExecRun (Container ''c0ffee'') [''python3'', ''-c'', health_probe] ''/projects''],
        ticks := 1\<rparr>) \<and>
   \<not> is_Exception (KeyboardInterrupt []) \<and>
   is_healthy sandbox0 world_ok =
     (Inr True, sandbox1,
      world_ok\<lparr>calls := [FromEnv, ContainersGet (DockerClient 0) ''sandbox'',
          ExecRun (Container ''c0ffee'') [''python3'', ''-c'', health_probe] ''/projects''],
        ticks := 2\<rparr>) \<and>
   (\<exists>u s1 w1 result s2 w2.
      connect sandbox0 world_ok = (Inr u, s1, w1) \<and>
      execute health_probe None None (Some 5) s1 w1 = (Inr result, s2, w2) \<and>
      success result \<and> str_contains ''health_check'' (stdout result)) \<and>
   (\<exists>v sf wf. is_healthy sandbox0 world_raise = (Inr v, sf, wf))"
proof -
  have a: "is_healthy sandbox0 world_interrupt =
     (Inl (KeyboardInterrupt []), sandbox1,
      world_interrupt\<lparr>calls := [FromEnv, ContainersGet (DockerClient 0) ''sandbox'',
          ExecRun (Container ''c0ffee'') [''python3'', ''-c'', health_probe] ''/projects''],
        ticks := 1\<rparr>)"
    by (simp add: is_healthy_def is_healthy_body_def except_return_def session_defs sample_defs)
  have b: "is_healthy sandbox0 world_ok =
     (Inr True, sandbox1,
      world_ok\<lparr>calls := [FromEnv, ContainersGet (DockerClient 0) ''sandbox'',
          ExecRun (Container ''c0ffee'') [''python3'', ''-c'', health_probe] ''/projects''],
        ticks := 2\<rparr>)"
    by (simp add: is_healthy_def is_healthy_body_def except_return_def session_defs sample_defs
        success_def health_probe_def)
  have c: "(\<forall>n x. from_env world_raise n = Inl x \<longrightarrow> is_Exception x) \<and>
    (\<forall>n c name x. containers_get world_raise n c name = Inl x \<longrightarrow> is_Exception x) \<and>
    (\<forall>n h c d x. exec_run world_raise n h c d = Inl x \<longrightarrow> is_Exception x) \<and>
    (\<forall>bs x. decode world_raise bs = Inl x \<longrightarrow> is_Exception x)"
    by (auto simp add: sample_defs)
  show ?thesis
    using a b c
      is_healthy_never_raises [of sandbox0 world_interrupt "KeyboardInterrupt []" sandbox1
        "world_interrupt\<lparr>calls := [FromEnv, ContainersGet (DockerClient 0) ''sandbox'',
          ExecRun (Container ''c0ffee'') [''python3'', ''-c'', health_probe] ''/projects''],
        ticks := 1\<rparr>"]
      is_healthy_never_raises [of sandbox0 world_ok _ sandbox1
        "world_ok\<lparr>calls := [FromEnv, ContainersGet (DockerClient 0) ''sandbox'',
          ExecRun (Container ''c0ffee'') [''python3'', ''-c'', health_probe] ''/projects''],
        ticks := 2\<rparr>" True]
      is_healthy_never_raises [of sandbox0 world_raise]
    by simp
qed

end
